theory Spec2Isabelle
  imports Main
begin

section \<open>Go strings: the library functions the agent calls\<close>

text \<open>
  A Go string is a sequence of bytes; it is modelled as a \<open>string\<close> (a list of 8-bit
  characters). \<open>strings.HasPrefix\<close>, \<open>strings.Index\<close> and \<open>strings.Split\<close> belong to
  Go's standard library; they are written out here as the library documents them, since
  \<open>GetUpdatedYAMLPath\<close> depends on how \<open>strings.Split\<close> cuts its argument.
\<close>

definition HasPrefix :: "string \<Rightarrow> string \<Rightarrow> bool" where
  "HasPrefix s pre = (length pre \<le> length s \<and> take (length pre) s = pre)"

text \<open>
  \<open>strings.Index(s, substr)\<close> is the index of the first instance of \<open>substr\<close> in \<open>s\<close>,
  or -1 when there is none; the -1 is \<open>None\<close> here.
\<close>

fun Index :: "string \<Rightarrow> string \<Rightarrow> nat option" where
  "Index [] substr = (if substr = [] then Some 0 else None)"
| "Index (c # cs) substr =
     (if HasPrefix (c # cs) substr then Some 0 else map_option Suc (Index cs substr))"

definition Contains :: "string \<Rightarrow> string \<Rightarrow> bool" where
  "Contains s substr = (Index s substr \<noteq> None)"

text \<open>
  \<open>strings.Split(s, sep)\<close> is \<open>genSplit(s, sep, 0, -1)\<close>: with a non-empty separator the
  loop takes the first instance of \<open>sep\<close> in what is left of \<open>s\<close>, appends the part before
  it, drops the part and the separator, and goes on until no instance is left; what
  remains is the last element. Every instance found in this way ends a segment, not only
  the first one. With an empty separator the string is exploded into its characters
  (one element per byte here; \<open>GetUpdatedYAMLPath\<close> never takes that branch).
\<close>

lemma Index_Some_nonempty: "Index s sep = Some m \<Longrightarrow> sep \<noteq> [] \<Longrightarrow> s \<noteq> []"
  by (cases s) auto

function Split :: "string \<Rightarrow> string \<Rightarrow> string list" where
  "Split s sep =
     (if sep = [] then map (\<lambda>c. [c]) s
      else case Index s sep of
             None \<Rightarrow> [s]
           | Some m \<Rightarrow> take m s # Split (drop (m + length sep) s) sep)"
  by pat_completeness auto
termination Split
proof (relation "measure (\<lambda>(s, sep). length s)")
  show "wf (measure (\<lambda>(s, sep). length s))" by simp
next
  fix s sep :: string and m :: nat
  assume sep: "sep \<noteq> []" and idx: "Index s sep = Some m"
  from Index_Some_nonempty [OF idx sep] have "0 < length s" by simp
  moreover from sep have "0 < m + length sep" by simp
  ultimately have "length s - (m + length sep) < length s" by arith
  then show "((drop (m + length sep) s, sep), (s, sep)) \<in> measure (\<lambda>(s, sep). length s)"
    by simp
qed

declare Split.simps [simp del]

section \<open>The agent and its options\<close>

text \<open>
  \<open>*zap.Logger\<close> is a pointer to a logger of the zap library: \<open>None\<close> is the nil pointer,
  \<open>Some l\<close> a logger object, told from the others by its identity.
\<close>

datatype zap_Logger = zap_Logger nat

datatype component_kind = extension | receiver | exporter | processor

datatype error = DuplicateFactory component_kind string | OtherError string

record KubeAgent =
  apiKey :: string
  target :: string
  enableSytheticMonitoring :: bool
  configCheckInterval :: string
  apiURLForConfigCheck :: string
  logger :: "zap_Logger option"
  dockerEndpoint :: string

text \<open>\<open>var cfg KubeAgent\<close>: every field has its zero value.\<close>

definition KubeAgent_zero :: KubeAgent where
  "KubeAgent_zero =
     \<lparr>apiKey = [], target = [], enableSytheticMonitoring = False,
      configCheckInterval = [], apiURLForConfigCheck = [], logger = None,
      dockerEndpoint = []\<rparr>"

section \<open>GetUpdatedYAMLPath\<close>

text \<open>
  \<open>isSocketFn\<close> is a function variable of the package, declared outside this file: the
  probe that tells whether a path is a live socket. It is a parameter of the model.
  The method has a pointer receiver; the model returns the agent next to the results
  \<open>(string, error)\<close>, so that what the call does to the agent is part of its value.
  \<open>dockerSocketPath[1]\<close> is read only when the slice has two elements, because Go's
  \<open>||\<close> does not evaluate its right operand when the left one holds. The receiver is an
  agent, as \<open>NewKubeAgent\<close> returns it, never the nil pointer.
\<close>

definition GetUpdatedYAMLPath ::
    "(string \<Rightarrow> bool) \<Rightarrow> KubeAgent \<Rightarrow> (string \<times> error option) \<times> KubeAgent" where
  "GetUpdatedYAMLPath isSocketFn k =
     (let yamlPath = ''/app/otel-config.yaml'';
          dockerSocketPath = Split (dockerEndpoint k) ''//'';
          yamlPath =
            (if length dockerSocketPath \<noteq> 2 \<or> \<not> isSocketFn (dockerSocketPath ! 1)
             then ''/app/otel-config-nodocker.yaml''
             else yamlPath)
      in ((yamlPath, None), k))"

text \<open>
  The algorithm as the specification words it, for comparison with the code: the endpoint
  is cut at the first delimiter only, so that at most two segments come out.
\<close>

definition SplitFirst :: "string \<Rightarrow> string \<Rightarrow> string list" where
  "SplitFirst s sep =
     (case Index s sep of
        None \<Rightarrow> [s]
      | Some m \<Rightarrow> [take m s, drop (m + length sep) s])"

definition selectConfigPath_spec :: "(string \<Rightarrow> bool) \<Rightarrow> string \<Rightarrow> string" where
  "selectConfigPath_spec isLive localRuntimeEndpoint =
     (let segments = SplitFirst localRuntimeEndpoint ''//''
      in if length segments \<noteq> 2 \<or> \<not> isLive (segments ! 1)
         then ''/app/otel-config-nodocker.yaml''
         else ''/app/otel-config.yaml'')"

text \<open>Two hosts for the examples: one where the docker socket is live, one with no socket.\<close>

definition docker_sock_live :: "string \<Rightarrow> bool" where
  "docker_sock_live p = (p = ''/var/run/docker.sock'' \<or> p = ''/var/run//docker.sock'')"

definition no_socket_live :: "string \<Rightarrow> bool" where
  "no_socket_live p = False"

definition agent_with_endpoint :: "string \<Rightarrow> KubeAgent" where
  "agent_with_endpoint e = KubeAgent_zero\<lparr>dockerEndpoint := e\<rparr>"

section \<open>NewKubeAgent and the options\<close>

text \<open>
  A \<open>KubeOptions\<close> value is a function that writes into the agent it is given; each of
  the seven constructors returns the closure that assigns one field.
\<close>

type_synonym KubeOptions = "KubeAgent \<Rightarrow> KubeAgent"

definition WithKubeAgentApiKey :: "string \<Rightarrow> KubeOptions" where
  "WithKubeAgentApiKey key = (\<lambda>h. h\<lparr>apiKey := key\<rparr>)"

definition WithKubeAgentTarget :: "string \<Rightarrow> KubeOptions" where
  "WithKubeAgentTarget t = (\<lambda>h. h\<lparr>target := t\<rparr>)"

definition WithKubeAgentEnableSyntheticMonitoring :: "bool \<Rightarrow> KubeOptions" where
  "WithKubeAgentEnableSyntheticMonitoring e = (\<lambda>h. h\<lparr>enableSytheticMonitoring := e\<rparr>)"

definition WithKubeAgentConfigCheckInterval :: "string \<Rightarrow> KubeOptions" where
  "WithKubeAgentConfigCheckInterval c = (\<lambda>h. h\<lparr>configCheckInterval := c\<rparr>)"

definition WithKubeAgentApiURLForConfigCheck :: "string \<Rightarrow> KubeOptions" where
  "WithKubeAgentApiURLForConfigCheck u = (\<lambda>h. h\<lparr>apiURLForConfigCheck := u\<rparr>)"

definition WithKubeAgentLogger :: "zap_Logger option \<Rightarrow> KubeOptions" where
  "WithKubeAgentLogger l = (\<lambda>h. h\<lparr>logger := l\<rparr>)"

definition WithKubeAgentDockerEndpoint :: "string \<Rightarrow> KubeOptions" where
  "WithKubeAgentDockerEndpoint endpoint = (\<lambda>h. h\<lparr>dockerEndpoint := endpoint\<rparr>)"

text \<open>The loop \<open>for _, apply := range opts { apply(&cfg) }\<close>.\<close>

fun applyAll :: "KubeAgent \<Rightarrow> KubeOptions list \<Rightarrow> KubeAgent" where
  "applyAll cfg [] = cfg"
| "applyAll cfg (apply # opts) = applyAll (apply cfg) opts"

text \<open>
  \<open>zap.NewProduction()\<close> belongs to the zap library and returns \<open>(*Logger, error)\<close>; what
  it returns is the parameter \<open>zap_NewProduction\<close>. The code keeps the logger and drops
  the error: \<open>cfg.logger, _ = zap.NewProduction()\<close>.
\<close>

definition NewKubeAgent ::
    "zap_Logger option \<times> error option \<Rightarrow> KubeOptions list \<Rightarrow> KubeAgent" where
  "NewKubeAgent zap_NewProduction opts =
     (let cfg = applyAll KubeAgent_zero opts;
          cfg = (if logger cfg = None then cfg\<lparr>logger := fst zap_NewProduction\<rparr> else cfg)
      in cfg)"

text \<open>
  The fields of \<open>KubeAgent\<close> are unexported, so a caller outside the package reaches them
  through the seven constructors only. A call of one of them is described by an
  \<open>option_call\<close>; \<open>KubeOptions_of\<close> is the closure the call returns, \<open>sets_f\<close> the value
  the call assigns to field \<open>f\<close> (if it assigns that field), and \<open>lastSet sets_f calls\<close> the
  value assigned by the last call in the sequence that assigns \<open>f\<close>.
\<close>

datatype option_call =
    ApiKeyOpt string
  | TargetOpt string
  | EnableSyntheticMonitoringOpt bool
  | ConfigCheckIntervalOpt string
  | ApiURLForConfigCheckOpt string
  | LoggerOpt "zap_Logger option"
  | DockerEndpointOpt string

fun KubeOptions_of :: "option_call \<Rightarrow> KubeOptions" where
  "KubeOptions_of (ApiKeyOpt key) = WithKubeAgentApiKey key"
| "KubeOptions_of (TargetOpt t) = WithKubeAgentTarget t"
| "KubeOptions_of (EnableSyntheticMonitoringOpt e) = WithKubeAgentEnableSyntheticMonitoring e"
| "KubeOptions_of (ConfigCheckIntervalOpt c) = WithKubeAgentConfigCheckInterval c"
| "KubeOptions_of (ApiURLForConfigCheckOpt u) = WithKubeAgentApiURLForConfigCheck u"
| "KubeOptions_of (LoggerOpt l) = WithKubeAgentLogger l"
| "KubeOptions_of (DockerEndpointOpt e) = WithKubeAgentDockerEndpoint e"

fun sets_apiKey :: "option_call \<Rightarrow> string option" where
  "sets_apiKey (ApiKeyOpt key) = Some key"
| "sets_apiKey _ = None"

fun sets_target :: "option_call \<Rightarrow> string option" where
  "sets_target (TargetOpt t) = Some t"
| "sets_target _ = None"

fun sets_enableSytheticMonitoring :: "option_call \<Rightarrow> bool option" where
  "sets_enableSytheticMonitoring (EnableSyntheticMonitoringOpt e) = Some e"
| "sets_enableSytheticMonitoring _ = None"

fun sets_configCheckInterval :: "option_call \<Rightarrow> string option" where
  "sets_configCheckInterval (ConfigCheckIntervalOpt c) = Some c"
| "sets_configCheckInterval _ = None"

fun sets_apiURLForConfigCheck :: "option_call \<Rightarrow> string option" where
  "sets_apiURLForConfigCheck (ApiURLForConfigCheckOpt u) = Some u"
| "sets_apiURLForConfigCheck _ = None"

fun sets_logger :: "option_call \<Rightarrow> zap_Logger option option" where
  "sets_logger (LoggerOpt l) = Some l"
| "sets_logger _ = None"

fun sets_dockerEndpoint :: "option_call \<Rightarrow> string option" where
  "sets_dockerEndpoint (DockerEndpointOpt e) = Some e"
| "sets_dockerEndpoint _ = None"

fun lastSet :: "(option_call \<Rightarrow> 'v option) \<Rightarrow> option_call list \<Rightarrow> 'v option" where
  "lastSet sets [] = None"
| "lastSet sets (c # cs) = (case lastSet sets cs of Some v \<Rightarrow> Some v | None \<Rightarrow> sets c)"

definition orElse :: "'v option \<Rightarrow> 'v \<Rightarrow> 'v" where
  "orElse x d = (case x of Some v \<Rightarrow> v | None \<Rightarrow> d)"

text \<open>A run of \<open>zap.NewProduction()\<close> that succeeds, for the examples.\<close>

definition production_logger :: zap_Logger where
  "production_logger = zap_Logger 0"

definition production_ok :: "zap_Logger option \<times> error option" where
  "production_ok = (Some production_logger, None)"

section \<open>GetFactories\<close>

text \<open>
  The factories come from the collector's packages. A receiver factory is named after the
  package whose \<open>NewFactory()\<close> returns it, and so are the exporter and processor
  factories. \<open>extension.Factory\<close> is the collector's interface for extensions; the two
  entries of the extension list are commented out in the source, so no value of that type
  is built here.
\<close>

typedecl extension_Factory

datatype receiver_Factory =
    otlpreceiver
  | fluentforwardreceiver
  | filelogreceiver
  | dockerstatsreceiver
  | hostmetricsreceiver
  | k8sclusterreceiver
  | k8seventsreceiver
  | kubeletstatsreceiver
  | prometheusreceiver

datatype exporter_Factory = loggingexporter | otlpexporter | otlphttpexporter

datatype processor_Factory =
    batchprocessor
  | memorylimiterprocessor
  | filterprocessor
  | attributesprocessor
  | resourceprocessor
  | resourcedetectionprocessor
  | k8sattributesprocessor

text \<open>
  What \<open>Type()\<close> answers for each factory is decided in the packages that build the
  factories, outside this repository: it is a parameter of the model, one function per
  kind of component.
\<close>

record component_Types =
  extension_Type :: "extension_Factory \<Rightarrow> string"
  receiver_Type :: "receiver_Factory \<Rightarrow> string"
  exporter_Type :: "exporter_Factory \<Rightarrow> string"
  processor_Type :: "processor_Factory \<Rightarrow> string"

text \<open>
  \<open>MakeFactoryMap\<close> is the collector's function, the same for the four kinds but for the
  kind named in its error: it starts from an empty map and goes through the factories in
  order; a factory whose \<open>Type()\<close> is already a key stops the loop with the error
  \<open>duplicate <kind> factory <name>\<close> (and the map built so far), any other factory is
  stored under its name.
\<close>

fun MakeFactoryMap_loop ::
    "component_kind \<Rightarrow> ('f \<Rightarrow> string) \<Rightarrow> (string \<rightharpoonup> 'f) \<Rightarrow> 'f list \<Rightarrow>
     (string \<rightharpoonup> 'f) \<times> error option" where
  "MakeFactoryMap_loop kind Type fMap [] = (fMap, None)"
| "MakeFactoryMap_loop kind Type fMap (f # factories) =
     (if fMap (Type f) \<noteq> None then (fMap, Some (DuplicateFactory kind (Type f)))
      else MakeFactoryMap_loop kind Type (fMap(Type f \<mapsto> f)) factories)"

definition MakeFactoryMap ::
    "component_kind \<Rightarrow> ('f \<Rightarrow> string) \<Rightarrow> 'f list \<Rightarrow> (string \<rightharpoonup> 'f) \<times> error option" where
  "MakeFactoryMap kind Type factories = MakeFactoryMap_loop kind Type Map.empty factories"

text \<open>
  \<open>otelcol.Factories\<close>, with the four maps \<open>GetFactories\<close> fills. A nil map and an
  empty map are both \<open>Map.empty\<close>: they answer every lookup alike.
\<close>

record Factories =
  Receivers :: "string \<rightharpoonup> receiver_Factory"
  Processors :: "string \<rightharpoonup> processor_Factory"
  Exporters :: "string \<rightharpoonup> exporter_Factory"
  Extensions :: "string \<rightharpoonup> extension_Factory"

definition Factories_zero :: Factories where
  "Factories_zero =
     \<lparr>Receivers = Map.empty, Processors = Map.empty, Exporters = Map.empty,
      Extensions = Map.empty\<rparr>"

text \<open>\<open>context.Context\<close>, as far as a caller can tell two contexts apart.\<close>

datatype Context = Background | Cancelled | DeadlineExceeded

text \<open>The three lists written in the body of \<open>GetFactories\<close>, in the order of the source.\<close>

definition receiver_factories :: "receiver_Factory list" where
  "receiver_factories =
     [otlpreceiver, fluentforwardreceiver, filelogreceiver, dockerstatsreceiver,
      hostmetricsreceiver, k8sclusterreceiver, k8seventsreceiver, kubeletstatsreceiver,
      prometheusreceiver]"

definition exporter_factories :: "exporter_Factory list" where
  "exporter_factories = [loggingexporter, otlpexporter, otlphttpexporter]"

definition processor_factories :: "processor_Factory list" where
  "processor_factories =
     [batchprocessor, memorylimiterprocessor, filterprocessor, attributesprocessor,
      resourceprocessor, resourcedetectionprocessor, k8sattributesprocessor]"

text \<open>
  \<open>GetFactories\<close> has a pointer receiver and takes a context. Each kind is registered in
  turn (extensions, receivers, exporters, processors); after each one, an error returns
  \<open>otelcol.Factories{}\<close> with that error. The agent is returned next to the results.
\<close>

definition GetFactories ::
    "component_Types \<Rightarrow> Context \<Rightarrow> KubeAgent \<Rightarrow> (Factories \<times> error option) \<times> KubeAgent" where
  "GetFactories T ctx k =
     (let factories = Factories_zero;
          (m, err) = MakeFactoryMap extension (extension_Type T) []
      in if err \<noteq> None then ((Factories_zero, err), k)
         else
           let factories = factories\<lparr>Extensions := m\<rparr>;
               (m, err) = MakeFactoryMap receiver (receiver_Type T) receiver_factories
           in if err \<noteq> None then ((Factories_zero, err), k)
              else
                let factories = factories\<lparr>Receivers := m\<rparr>;
                    (m, err) = MakeFactoryMap exporter (exporter_Type T) exporter_factories
                in if err \<noteq> None then ((Factories_zero, err), k)
                   else
                     let factories = factories\<lparr>Exporters := m\<rparr>;
                         (m, err) =
                           MakeFactoryMap processor (processor_Type T) processor_factories
                     in if err \<noteq> None then ((Factories_zero, err), k)
                        else
                          let factories = factories\<lparr>Processors := m\<rparr>
                          in ((factories, None), k))"

text \<open>
  For the examples: the names the factories declare in the upstream packages, and a
  variant in which the fluentforward receiver declares the name of the otlp receiver.
\<close>

fun upstream_receiver_Type :: "receiver_Factory \<Rightarrow> string" where
  "upstream_receiver_Type otlpreceiver = ''otlp''"
| "upstream_receiver_Type fluentforwardreceiver = ''fluentforward''"
| "upstream_receiver_Type filelogreceiver = ''filelog''"
| "upstream_receiver_Type dockerstatsreceiver = ''docker_stats''"
| "upstream_receiver_Type hostmetricsreceiver = ''hostmetrics''"
| "upstream_receiver_Type k8sclusterreceiver = ''k8s_cluster''"
| "upstream_receiver_Type k8seventsreceiver = ''k8s_events''"
| "upstream_receiver_Type kubeletstatsreceiver = ''kubeletstats''"
| "upstream_receiver_Type prometheusreceiver = ''prometheus''"

fun upstream_exporter_Type :: "exporter_Factory \<Rightarrow> string" where
  "upstream_exporter_Type loggingexporter = ''logging''"
| "upstream_exporter_Type otlpexporter = ''otlp''"
| "upstream_exporter_Type otlphttpexporter = ''otlphttp''"

fun upstream_processor_Type :: "processor_Factory \<Rightarrow> string" where
  "upstream_processor_Type batchprocessor = ''batch''"
| "upstream_processor_Type memorylimiterprocessor = ''memory_limiter''"
| "upstream_processor_Type filterprocessor = ''filter''"
| "upstream_processor_Type attributesprocessor = ''attributes''"
| "upstream_processor_Type resourceprocessor = ''resource''"
| "upstream_processor_Type resourcedetectionprocessor = ''resourcedetection''"
| "upstream_processor_Type k8sattributesprocessor = ''k8sattributes''"

definition unnamed_extension_Type :: "extension_Factory \<Rightarrow> string" where
  "unnamed_extension_Type f = []"

definition upstream_Types :: component_Types where
  "upstream_Types =
     \<lparr>extension_Type = unnamed_extension_Type, receiver_Type = upstream_receiver_Type,
      exporter_Type = upstream_exporter_Type, processor_Type = upstream_processor_Type\<rparr>"

definition colliding_receiver_Type :: "receiver_Factory \<Rightarrow> string" where
  "colliding_receiver_Type f =
     (if f = fluentforwardreceiver then ''otlp'' else upstream_receiver_Type f)"

definition colliding_Types :: component_Types where
  "colliding_Types = upstream_Types\<lparr>receiver_Type := colliding_receiver_Type\<rparr>"

section \<open>Facts about the string functions\<close>

lemma HasPrefix_iff: "HasPrefix s pre \<longleftrightarrow> (\<exists>b. s = pre @ b)"
proof
  assume "HasPrefix s pre"
  then have "take (length pre) s = pre" by (simp add: HasPrefix_def)
  then have "s = pre @ drop (length pre) s" by (metis append_take_drop_id)
  then show "\<exists>b. s = pre @ b" ..
next
  assume "\<exists>b. s = pre @ b"
  then show "HasPrefix s pre" by (auto simp: HasPrefix_def)
qed

text \<open>\<open>Index\<close> finds nothing exactly when the substring occurs nowhere.\<close>

lemma Index_None_iff: "Index s sub = None \<longleftrightarrow> (\<nexists>a b. s = a @ sub @ b)"
proof (induction s)
  case Nil
  then show ?case by auto
next
  case (Cons c cs)
  have "(\<exists>a b. c # cs = a @ sub @ b) \<longleftrightarrow>
        (\<exists>b. c # cs = sub @ b) \<or> (\<exists>a b. cs = a @ sub @ b)"
    by (auto simp: Cons_eq_append_conv)
  with Cons show ?case by (simp add: HasPrefix_iff)
qed

lemma Contains_iff: "Contains s sub \<longleftrightarrow> (\<exists>a b. s = a @ sub @ b)"
  using Index_None_iff [of s sub] by (simp add: Contains_def)

lemma Split_no_sep: "sep \<noteq> [] \<Longrightarrow> Index s sep = None \<Longrightarrow> Split s sep = [s]"
  by (simp add: Split.simps)

lemma Split_sep:
  "sep \<noteq> [] \<Longrightarrow> Index s sep = Some m \<Longrightarrow>
   Split s sep = take m s # Split (drop (m + length sep) s) sep"
  by (subst Split.simps) simp

lemma Split_nonempty: "sep \<noteq> [] \<Longrightarrow> Split s sep \<noteq> []"
  by (subst Split.simps) (simp split: option.split)

text \<open>A second delimiter in what follows the first one gives at least three segments.\<close>

lemma Split_three:
  assumes "sep \<noteq> []" and "Index s sep = Some m"
    and "Index (drop (m + length sep) s) sep = Some j"
  shows "3 \<le> length (Split s sep)"
proof -
  let ?r = "drop (m + length sep) s"
  have "Split (drop (j + length sep) ?r) sep \<noteq> []"
    using assms(1) by (rule Split_nonempty)
  then have "1 \<le> length (Split (drop (j + length sep) ?r) sep)"
    by (cases "Split (drop (j + length sep) ?r) sep") simp_all
  then show ?thesis
    by (simp add: Split_sep [OF assms(1,2)] Split_sep [OF assms(1,3)])
qed

section \<open>The configuration path\<close>

lemma GetUpdatedYAMLPath_path:
  "fst (fst (GetUpdatedYAMLPath isSocketFn k)) =
     (if length (Split (dockerEndpoint k) ''//'') \<noteq> 2 \<or>
         \<not> isSocketFn (Split (dockerEndpoint k) ''//'' ! 1)
      then ''/app/otel-config-nodocker.yaml'' else ''/app/otel-config.yaml'')"
  by (simp add: GetUpdatedYAMLPath_def Let_def)

lemma GetUpdatedYAMLPath_err: "snd (fst (GetUpdatedYAMLPath isSocketFn k)) = None"
  by (simp add: GetUpdatedYAMLPath_def Let_def)

text \<open>
  C1, as amended. The endpoint is cut at every \<open>//\<close> that \<open>strings.Split\<close> finds, from
  left to right, not at the first one only. With no \<open>//\<close> in the endpoint the path is
  the one without local runtime. Otherwise let \<open>rest\<close> be what follows the first \<open>//\<close>:
  when \<open>rest\<close> still contains a \<open>//\<close> there are three segments or more and the path is
  the one without local runtime, whatever the probe answers; when it contains none, the
  two segments are the part before the \<open>//\<close> and \<open>rest\<close>, and the path is the one with
  local runtime exactly when the probe accepts \<open>rest\<close>.
\<close>

theorem GetUpdatedYAMLPath_splits_at_every_delimiter:
  "fst (fst (GetUpdatedYAMLPath isSocketFn k)) =
     (case Index (dockerEndpoint k) ''//'' of
        None \<Rightarrow> ''/app/otel-config-nodocker.yaml''
      | Some m \<Rightarrow>
          (let rest = drop (m + 2) (dockerEndpoint k)
           in if Contains rest ''//'' then ''/app/otel-config-nodocker.yaml''
              else if isSocketFn rest then ''/app/otel-config.yaml''
              else ''/app/otel-config-nodocker.yaml''))"
proof (cases "Index (dockerEndpoint k) ''//''")
  case None
  then have "Split (dockerEndpoint k) ''//'' = [dockerEndpoint k]"
    by (simp add: Split_no_sep)
  with None show ?thesis by (simp add: GetUpdatedYAMLPath_path)
next
  case (Some m)
  let ?rest = "drop (m + 2) (dockerEndpoint k)"
  show ?thesis
  proof (cases "Index ?rest ''//''")
    case None
    with Some have "Split (dockerEndpoint k) ''//'' = [take m (dockerEndpoint k), ?rest]"
      by (simp add: Split_sep Split_no_sep)
    with Some None show ?thesis by (simp add: GetUpdatedYAMLPath_path Contains_def)
  next
    case inner: (Some j)
    from Split_three [of "''//''" "dockerEndpoint k" m j] Some inner
    have "3 \<le> length (Split (dockerEndpoint k) ''//'')" by simp
    with Some inner show ?thesis by (simp add: GetUpdatedYAMLPath_path Contains_def)
  qed
qed

theorem GetUpdatedYAMLPath_splits_at_every_delimiter_witness:
  "fst (fst (GetUpdatedYAMLPath docker_sock_live
       (agent_with_endpoint ''unix:///var/run//docker.sock''))) =
     ''/app/otel-config-nodocker.yaml''"
  using GetUpdatedYAMLPath_splits_at_every_delimiter
    [of docker_sock_live "agent_with_endpoint ''unix:///var/run//docker.sock''"]
  by (simp add: agent_with_endpoint_def HasPrefix_def Contains_def)

text \<open>
  The claim as it was stated fails on the endpoint \<open>unix:///var/run//docker.sock\<close> of a
  host where \<open>/var/run//docker.sock\<close> is a live socket: cutting at the first \<open>//\<close> gives
  two segments and the path with local runtime, while the code gets the three segments
  \<open>unix:\<close>, \<open>/var/run\<close> and \<open>docker.sock\<close> and returns the path without it.
\<close>

theorem first_delimiter_split_counterexample:
  "selectConfigPath_spec docker_sock_live ''unix:///var/run//docker.sock'' =
     ''/app/otel-config.yaml'' \<and>
   docker_sock_live (drop 7 ''unix:///var/run//docker.sock'') \<and>
   Split ''unix:///var/run//docker.sock'' ''//'' = [''unix:'', ''/var/run'', ''docker.sock''] \<and>
   fst (fst (GetUpdatedYAMLPath docker_sock_live
       (agent_with_endpoint ''unix:///var/run//docker.sock''))) =
     ''/app/otel-config-nodocker.yaml''"
  by (simp add: selectConfigPath_spec_def SplitFirst_def GetUpdatedYAMLPath_def
      agent_with_endpoint_def docker_sock_live_def HasPrefix_def Split.simps)

text \<open>
  C2. The path is the reduced configuration \<open>/app/otel-config-nodocker.yaml\<close> in each of
  three cases: the endpoint is the empty string; the endpoint contains no \<open>//\<close>; the
  endpoint splits into exactly two segments and the probe rejects the second one.
\<close>

theorem GetUpdatedYAMLPath_reduced_configuration:
  assumes "dockerEndpoint k = [] \<or>
           \<not> Contains (dockerEndpoint k) ''//'' \<or>
           (\<exists>scheme sock. Split (dockerEndpoint k) ''//'' = [scheme, sock] \<and> \<not> isSocketFn sock)"
  shows "fst (GetUpdatedYAMLPath isSocketFn k) = (''/app/otel-config-nodocker.yaml'', None)"
proof -
  from assms consider
      (empty) "dockerEndpoint k = []"
    | (no_delimiter) "\<not> Contains (dockerEndpoint k) ''//''"
    | (dead) scheme sock where
        "Split (dockerEndpoint k) ''//'' = [scheme, sock]" "\<not> isSocketFn sock"
    by blast
  then have "fst (fst (GetUpdatedYAMLPath isSocketFn k)) = ''/app/otel-config-nodocker.yaml''"
  proof cases
    case empty
    then have "Split (dockerEndpoint k) ''//'' = [[]]" by (simp add: Split_no_sep)
    then show ?thesis by (simp add: GetUpdatedYAMLPath_path)
  next
    case no_delimiter
    then have "Split (dockerEndpoint k) ''//'' = [dockerEndpoint k]"
      by (simp add: Contains_def Split_no_sep)
    then show ?thesis by (simp add: GetUpdatedYAMLPath_path)
  next
    case dead
    then show ?thesis by (simp add: GetUpdatedYAMLPath_path)
  qed
  then show ?thesis
    using GetUpdatedYAMLPath_err [of isSocketFn k] by (simp add: prod_eq_iff)
qed

theorem GetUpdatedYAMLPath_reduced_configuration_witness:
  "fst (GetUpdatedYAMLPath docker_sock_live (agent_with_endpoint [])) =
     (''/app/otel-config-nodocker.yaml'', None) \<and>
   fst (GetUpdatedYAMLPath docker_sock_live (agent_with_endpoint ''/var/run/docker.sock'')) =
     (''/app/otel-config-nodocker.yaml'', None) \<and>
   Split ''unix:///var/run/docker.sock'' ''//'' = [''unix:'', ''/var/run/docker.sock''] \<and>
   fst (GetUpdatedYAMLPath no_socket_live (agent_with_endpoint ''unix:///var/run/docker.sock'')) =
     (''/app/otel-config-nodocker.yaml'', None)"
proof -
  have split: "Split ''unix:///var/run/docker.sock'' ''//'' = [''unix:'', ''/var/run/docker.sock'']"
    by (simp add: Split.simps HasPrefix_def)
  have a: "dockerEndpoint (agent_with_endpoint []) = []"
    by (simp add: agent_with_endpoint_def KubeAgent_zero_def)
  have b: "\<not> Contains (dockerEndpoint (agent_with_endpoint ''/var/run/docker.sock'')) ''//''"
    by (simp add: agent_with_endpoint_def Contains_def HasPrefix_def)
  have c: "\<exists>scheme sock.
      Split (dockerEndpoint (agent_with_endpoint ''unix:///var/run/docker.sock'')) ''//'' =
        [scheme, sock] \<and> \<not> no_socket_live sock"
    by (simp add: agent_with_endpoint_def split no_socket_live_def)
  show ?thesis
    using GetUpdatedYAMLPath_reduced_configuration [of "agent_with_endpoint []" docker_sock_live] a
      GetUpdatedYAMLPath_reduced_configuration
        [of "agent_with_endpoint ''/var/run/docker.sock''" docker_sock_live] b
      GetUpdatedYAMLPath_reduced_configuration
        [of "agent_with_endpoint ''unix:///var/run/docker.sock''" no_socket_live] c
      split
    by blast
qed

text \<open>
  C3. For an endpoint of the form \<open>unix://\<close> followed by a path with no \<open>//\<close> in it (as
  in \<open>unix:///path/to/live.sock\<close>, where the only \<open>//\<close> that \<open>strings.Split\<close> finds is the
  one after \<open>unix:\<close>), the split has exactly the two segments \<open>unix:\<close> and the path, and
  when the probe accepts the path the result is the full configuration
  \<open>/app/otel-config.yaml\<close>.
\<close>

theorem GetUpdatedYAMLPath_full_configuration:
  assumes "dockerEndpoint k = ''unix://'' @ path"
    and "\<not> Contains path ''//''"
    and "isSocketFn path"
  shows "Split (dockerEndpoint k) ''//'' = [''unix:'', path] \<and>
         fst (GetUpdatedYAMLPath isSocketFn k) = (''/app/otel-config.yaml'', None)"
proof -
  have "Index (''unix://'' @ path) ''//'' = Some 5"
    by (simp add: HasPrefix_def)
  then have "Split (''unix://'' @ path) ''//'' = ''unix:'' # Split path ''//''"
    by (simp add: Split_sep)
  with assms(2) have split: "Split (dockerEndpoint k) ''//'' = [''unix:'', path]"
    by (simp add: assms(1) Contains_def Split_no_sep)
  with assms(3) have "fst (fst (GetUpdatedYAMLPath isSocketFn k)) = ''/app/otel-config.yaml''"
    by (simp add: GetUpdatedYAMLPath_path)
  with split show ?thesis
    using GetUpdatedYAMLPath_err [of isSocketFn k] by (simp add: prod_eq_iff)
qed

theorem GetUpdatedYAMLPath_full_configuration_witness:
  "fst (GetUpdatedYAMLPath docker_sock_live
     (agent_with_endpoint ''unix:///var/run/docker.sock'')) = (''/app/otel-config.yaml'', None)"
proof -
  have a: "dockerEndpoint (agent_with_endpoint ''unix:///var/run/docker.sock'') =
           ''unix://'' @ ''/var/run/docker.sock''"
    by (simp add: agent_with_endpoint_def)
  have b: "\<not> Contains ''/var/run/docker.sock'' ''//''"
    by (simp add: Contains_def HasPrefix_def)
  have c: "docker_sock_live ''/var/run/docker.sock''"
    by (simp add: docker_sock_live_def)
  from GetUpdatedYAMLPath_full_configuration
    [where k = "agent_with_endpoint ''unix:///var/run/docker.sock''"
       and path = "''/var/run/docker.sock''" and isSocketFn = docker_sock_live, OF a b c]
  show ?thesis by simp
qed

text \<open>
  C4. \<open>GetUpdatedYAMLPath\<close> never fails: for every agent and every probe the error is nil
  and the path is one of the two fixed paths \<open>/app/otel-config.yaml\<close> and
  \<open>/app/otel-config-nodocker.yaml\<close>, both absolute.
\<close>

theorem GetUpdatedYAMLPath_never_fails:
  "snd (fst (GetUpdatedYAMLPath isSocketFn k)) = None \<and>
   fst (fst (GetUpdatedYAMLPath isSocketFn k)) \<in>
     {''/app/otel-config.yaml'', ''/app/otel-config-nodocker.yaml''} \<and>
   HasPrefix (fst (fst (GetUpdatedYAMLPath isSocketFn k))) ''/''"
  by (simp add: GetUpdatedYAMLPath_def Let_def HasPrefix_def)

theorem GetUpdatedYAMLPath_never_fails_witness:
  "snd (fst (GetUpdatedYAMLPath no_socket_live (agent_with_endpoint ''unix//:://''))) = None \<and>
   fst (fst (GetUpdatedYAMLPath no_socket_live (agent_with_endpoint ''unix//:://''))) =
     ''/app/otel-config-nodocker.yaml''"
proof -
  have "Split ''unix//:://'' ''//'' = [''unix'', ''::'', []]"
    by (simp add: Split.simps HasPrefix_def)
  then have "fst (fst (GetUpdatedYAMLPath no_socket_live (agent_with_endpoint ''unix//:://''))) =
      ''/app/otel-config-nodocker.yaml''"
    by (simp add: GetUpdatedYAMLPath_path agent_with_endpoint_def)
  with GetUpdatedYAMLPath_never_fails [of no_socket_live "agent_with_endpoint ''unix//:://''"]
  show ?thesis by simp
qed

section \<open>Building the agent\<close>

lemmas With_defs =
  WithKubeAgentApiKey_def WithKubeAgentTarget_def WithKubeAgentEnableSyntheticMonitoring_def
  WithKubeAgentConfigCheckInterval_def WithKubeAgentApiURLForConfigCheck_def
  WithKubeAgentLogger_def WithKubeAgentDockerEndpoint_def

text \<open>The options run in the order of the sequence: a sequence in two parts runs part by part.\<close>

lemma applyAll_append: "applyAll cfg (xs @ ys) = applyAll (applyAll cfg xs) ys"
  by (induction xs arbitrary: cfg) simp_all

text \<open>
  After the loop each field holds the value of the last call that assigns it, and the
  value it had before the loop when no call assigns it.
\<close>

lemma applyAll_fields:
  "apiKey (applyAll cfg (map KubeOptions_of cs)) = orElse (lastSet sets_apiKey cs) (apiKey cfg) \<and>
   target (applyAll cfg (map KubeOptions_of cs)) = orElse (lastSet sets_target cs) (target cfg) \<and>
   enableSytheticMonitoring (applyAll cfg (map KubeOptions_of cs)) =
     orElse (lastSet sets_enableSytheticMonitoring cs) (enableSytheticMonitoring cfg) \<and>
   configCheckInterval (applyAll cfg (map KubeOptions_of cs)) =
     orElse (lastSet sets_configCheckInterval cs) (configCheckInterval cfg) \<and>
   apiURLForConfigCheck (applyAll cfg (map KubeOptions_of cs)) =
     orElse (lastSet sets_apiURLForConfigCheck cs) (apiURLForConfigCheck cfg) \<and>
   logger (applyAll cfg (map KubeOptions_of cs)) = orElse (lastSet sets_logger cs) (logger cfg) \<and>
   dockerEndpoint (applyAll cfg (map KubeOptions_of cs)) =
     orElse (lastSet sets_dockerEndpoint cs) (dockerEndpoint cfg)"
proof (induction cs arbitrary: cfg)
  case Nil
  show ?case by (simp add: orElse_def)
next
  case (Cons c cs)
  show ?case
    by (cases c) (simp_all add: Cons.IH With_defs orElse_def split: option.split)
qed

lemma NewKubeAgent_fields:
  "apiKey (NewKubeAgent np opts) = apiKey (applyAll KubeAgent_zero opts) \<and>
   target (NewKubeAgent np opts) = target (applyAll KubeAgent_zero opts) \<and>
   enableSytheticMonitoring (NewKubeAgent np opts) =
     enableSytheticMonitoring (applyAll KubeAgent_zero opts) \<and>
   configCheckInterval (NewKubeAgent np opts) = configCheckInterval (applyAll KubeAgent_zero opts) \<and>
   apiURLForConfigCheck (NewKubeAgent np opts) =
     apiURLForConfigCheck (applyAll KubeAgent_zero opts) \<and>
   dockerEndpoint (NewKubeAgent np opts) = dockerEndpoint (applyAll KubeAgent_zero opts)"
  by (simp add: NewKubeAgent_def Let_def)

lemma NewKubeAgent_logger:
  "logger (NewKubeAgent np opts) =
     (if logger (applyAll KubeAgent_zero opts) = None then fst np
      else logger (applyAll KubeAgent_zero opts))"
  by (simp add: NewKubeAgent_def Let_def)

text \<open>
  C5, as amended. For every sequence of calls of the seven constructors, each field of the
  new agent other than \<open>logger\<close> holds the value assigned by the last call that assigns
  that field (the zero value when no call does); the options run in the order supplied
  and none fails. The \<open>logger\<close> field holds the logger assigned by the last logger option
  when that logger is not nil; when it is nil, or when there is no logger option, the nil
  check after the loop puts there the logger that \<open>zap.NewProduction()\<close> returns.
\<close>

theorem NewKubeAgent_last_write_wins:
  "apiKey (NewKubeAgent np (map KubeOptions_of cs)) =
     (case lastSet sets_apiKey cs of Some v \<Rightarrow> v | None \<Rightarrow> []) \<and>
   target (NewKubeAgent np (map KubeOptions_of cs)) =
     (case lastSet sets_target cs of Some v \<Rightarrow> v | None \<Rightarrow> []) \<and>
   enableSytheticMonitoring (NewKubeAgent np (map KubeOptions_of cs)) =
     (case lastSet sets_enableSytheticMonitoring cs of Some v \<Rightarrow> v | None \<Rightarrow> False) \<and>
   configCheckInterval (NewKubeAgent np (map KubeOptions_of cs)) =
     (case lastSet sets_configCheckInterval cs of Some v \<Rightarrow> v | None \<Rightarrow> []) \<and>
   apiURLForConfigCheck (NewKubeAgent np (map KubeOptions_of cs)) =
     (case lastSet sets_apiURLForConfigCheck cs of Some v \<Rightarrow> v | None \<Rightarrow> []) \<and>
   dockerEndpoint (NewKubeAgent np (map KubeOptions_of cs)) =
     (case lastSet sets_dockerEndpoint cs of Some v \<Rightarrow> v | None \<Rightarrow> []) \<and>
   logger (NewKubeAgent np (map KubeOptions_of cs)) =
     (case lastSet sets_logger cs of
        Some (Some l) \<Rightarrow> Some l
      | Some None \<Rightarrow> fst np
      | None \<Rightarrow> fst np)"
proof -
  have zero: "apiKey KubeAgent_zero = []" "target KubeAgent_zero = []"
    "enableSytheticMonitoring KubeAgent_zero = False" "configCheckInterval KubeAgent_zero = []"
    "apiURLForConfigCheck KubeAgent_zero = []" "dockerEndpoint KubeAgent_zero = []"
    "logger KubeAgent_zero = None"
    by (simp_all add: KubeAgent_zero_def)
  have "logger (NewKubeAgent np (map KubeOptions_of cs)) =
     (case lastSet sets_logger cs of Some (Some l) \<Rightarrow> Some l | Some None \<Rightarrow> fst np | None \<Rightarrow> fst np)"
    by (simp add: NewKubeAgent_logger applyAll_fields zero orElse_def split: option.split)
  then show ?thesis
    by (simp add: NewKubeAgent_fields applyAll_fields zero orElse_def)
qed

theorem NewKubeAgent_last_write_wins_witness:
  "apiKey (NewKubeAgent production_ok
     [WithKubeAgentApiKey ''k1'', WithKubeAgentLogger (Some (zap_Logger 7)),
      WithKubeAgentTarget ''https://x'', WithKubeAgentApiKey ''k2'']) = ''k2'' \<and>
   target (NewKubeAgent production_ok
     [WithKubeAgentApiKey ''k1'', WithKubeAgentLogger (Some (zap_Logger 7)),
      WithKubeAgentTarget ''https://x'', WithKubeAgentApiKey ''k2'']) = ''https://x'' \<and>
   logger (NewKubeAgent production_ok
     [WithKubeAgentApiKey ''k1'', WithKubeAgentLogger (Some (zap_Logger 7)),
      WithKubeAgentTarget ''https://x'', WithKubeAgentApiKey ''k2'']) = Some (zap_Logger 7)"
  using NewKubeAgent_last_write_wins
    [of production_ok
        "[ApiKeyOpt ''k1'', LoggerOpt (Some (zap_Logger 7)), TargetOpt ''https://x'',
          ApiKeyOpt ''k2'']"]
  by simp

text \<open>
  The claim as it was stated fails on the sequence whose only option is
  \<open>WithKubeAgentLogger(nil)\<close>: the last (and only) value assigned to \<open>logger\<close> is nil, and
  the field of the new agent is the production logger.
\<close>

theorem nil_logger_option_counterexample:
  "lastSet sets_logger [LoggerOpt None] = Some None \<and>
   map KubeOptions_of [LoggerOpt None] = [WithKubeAgentLogger None] \<and>
   logger (NewKubeAgent production_ok [WithKubeAgentLogger None]) = Some production_logger"
  by (simp add: NewKubeAgent_def WithKubeAgentLogger_def KubeAgent_zero_def production_ok_def)

text \<open>
  C6. When no logger option is in the sequence and \<open>zap.NewProduction()\<close> builds its
  logger, the \<open>logger\<close> field of the new agent is that logger: the default production
  logger, not nil.
\<close>

theorem NewKubeAgent_default_logger:
  assumes "lastSet sets_logger cs = None"
    and "fst zap_NewProduction = Some l"
  shows "logger (NewKubeAgent zap_NewProduction (map KubeOptions_of cs)) = Some l \<and>
         logger (NewKubeAgent zap_NewProduction (map KubeOptions_of cs)) \<noteq> None"
proof -
  have "logger (applyAll KubeAgent_zero (map KubeOptions_of cs)) = None"
    using assms(1) by (simp add: applyAll_fields orElse_def KubeAgent_zero_def)
  with assms(2) show ?thesis by (simp add: NewKubeAgent_logger)
qed

theorem NewKubeAgent_default_logger_witness:
  "logger (NewKubeAgent production_ok
     [WithKubeAgentApiKey ''k'', WithKubeAgentTarget ''https://x'',
      WithKubeAgentDockerEndpoint ''unix:///var/run/test.sock'']) = Some production_logger"
proof -
  have a: "lastSet sets_logger
      [ApiKeyOpt ''k'', TargetOpt ''https://x'', DockerEndpointOpt ''unix:///var/run/test.sock''] =
      None"
    by simp
  have b: "fst production_ok = Some production_logger"
    by (simp add: production_ok_def)
  from NewKubeAgent_default_logger [OF a b] show ?thesis by simp
qed

section \<open>Registering the factories\<close>

lemma MakeFactoryMap_loop_err_None:
  "snd (MakeFactoryMap_loop kind ty m fs) = None \<longleftrightarrow>
     distinct (map ty fs) \<and> (\<forall>f\<in>set fs. m (ty f) = None)"
proof (induction fs arbitrary: m)
  case Nil
  show ?case by simp
next
  case (Cons f fs)
  have "(\<forall>g\<in>set fs. (m(ty f \<mapsto> f)) (ty g) = None) \<longleftrightarrow>
        ty f \<notin> ty ` set fs \<and> (\<forall>g\<in>set fs. m (ty g) = None)"
    by (auto simp: image_iff)
  then show ?case by (auto simp: Cons.IH)
qed

lemma MakeFactoryMap_loop_map:
  "snd (MakeFactoryMap_loop kind ty m fs) = None \<Longrightarrow>
   fst (MakeFactoryMap_loop kind ty m fs) = m ++ map_of (map (\<lambda>f. (ty f, f)) fs)"
proof (induction fs arbitrary: m)
  case Nil
  show ?case by simp
next
  case (Cons f fs)
  from Cons.prems have free: "m (ty f) = None"
    and rest: "snd (MakeFactoryMap_loop kind ty (m(ty f \<mapsto> f)) fs) = None"
    by (auto split: if_splits)
  from rest have "ty f \<notin> ty ` set fs"
    by (auto simp: MakeFactoryMap_loop_err_None)
  then have notin: "map_of (map (\<lambda>f. (ty f, f)) fs) (ty f) = None"
    by (simp add: map_of_eq_None_iff image_image)
  have "fst (MakeFactoryMap_loop kind ty m (f # fs)) =
        fst (MakeFactoryMap_loop kind ty (m(ty f \<mapsto> f)) fs)"
    using free by simp
  also have "\<dots> = m(ty f \<mapsto> f) ++ map_of (map (\<lambda>f. (ty f, f)) fs)"
    by (rule Cons.IH [OF rest])
  also have "\<dots> = m ++ (map_of (map (\<lambda>f. (ty f, f)) fs))(ty f \<mapsto> f)"
    using notin by (auto simp: map_add_def fun_eq_iff split: option.splits)
  also have "\<dots> = m ++ map_of (map (\<lambda>f. (ty f, f)) (f # fs))"
    by simp
  finally show ?case .
qed

lemma MakeFactoryMap_err_None:
  "snd (MakeFactoryMap kind ty fs) = None \<longleftrightarrow> distinct (map ty fs)"
  by (simp add: MakeFactoryMap_def MakeFactoryMap_loop_err_None)

lemma MakeFactoryMap_dom:
  assumes "snd (MakeFactoryMap kind ty fs) = None"
  shows "dom (fst (MakeFactoryMap kind ty fs)) = ty ` set fs"
proof -
  from assms have "fst (MakeFactoryMap kind ty fs) = map_of (map (\<lambda>f. (ty f, f)) fs)"
    by (simp add: MakeFactoryMap_def MakeFactoryMap_loop_map)
  then show ?thesis by (simp add: dom_map_of_conv_image_fst image_image)
qed

lemma MakeFactoryMap_lookup:
  assumes "snd (MakeFactoryMap kind ty fs) = None" and "f \<in> set fs"
  shows "fst (MakeFactoryMap kind ty fs) (ty f) = Some f"
proof -
  from assms(1) have eq: "fst (MakeFactoryMap kind ty fs) = map_of (map (\<lambda>f. (ty f, f)) fs)"
    by (simp add: MakeFactoryMap_def MakeFactoryMap_loop_map)
  from assms(1) have "distinct (map fst (map (\<lambda>f. (ty f, f)) fs))"
    by (simp add: MakeFactoryMap_err_None comp_def)
  moreover from assms(2) have "(ty f, f) \<in> set (map (\<lambda>f. (ty f, f)) fs)" by auto
  ultimately show ?thesis unfolding eq by (rule map_of_is_SomeI)
qed

lemma MakeFactoryMap_card:
  assumes "snd (MakeFactoryMap kind ty fs) = None"
  shows "card (dom (fst (MakeFactoryMap kind ty fs))) = length fs"
proof -
  from assms have "distinct (map ty fs)" by (simp add: MakeFactoryMap_err_None)
  then have "card (set (map ty fs)) = length (map ty fs)" by (rule distinct_card)
  with assms show ?thesis by (simp add: MakeFactoryMap_dom)
qed

lemma MakeFactoryMap_loop_error:
  "snd (MakeFactoryMap_loop kind ty m fs) = Some e \<Longrightarrow>
   \<exists>f\<in>set fs. e = DuplicateFactory kind (ty f)"
  by (induction fs arbitrary: m) (auto split: if_splits)

text \<open>The error of a failed registration names the kind and the name declared twice.\<close>

lemma MakeFactoryMap_error:
  "snd (MakeFactoryMap kind ty fs) = Some e \<Longrightarrow> \<exists>f\<in>set fs. e = DuplicateFactory kind (ty f)"
  unfolding MakeFactoryMap_def by (rule MakeFactoryMap_loop_error)

lemma MakeFactoryMap_Nil: "MakeFactoryMap kind ty [] = (Map.empty, None)"
  by (simp add: MakeFactoryMap_def)

lemma GetFactories_unfold:
  "fst (GetFactories T ctx k) =
     (let r = MakeFactoryMap receiver (receiver_Type T) receiver_factories;
          e = MakeFactoryMap exporter (exporter_Type T) exporter_factories;
          p = MakeFactoryMap processor (processor_Type T) processor_factories
      in if snd r \<noteq> None then (Factories_zero, snd r)
         else if snd e \<noteq> None then (Factories_zero, snd e)
         else if snd p \<noteq> None then (Factories_zero, snd p)
         else (\<lparr>Receivers = fst r, Processors = fst p, Exporters = fst e,
                Extensions = Map.empty\<rparr>, None))"
  by (simp add: GetFactories_def MakeFactoryMap_Nil Let_def Factories_zero_def split: prod.split)

lemma GetFactories_agent: "snd (GetFactories T ctx k) = k"
  by (simp add: GetFactories_def Let_def split: prod.split)

text \<open>
  C7. When the registration of every kind succeeds, \<open>GetFactories\<close> returns a nil error
  and a catalog in which, kind by kind, the keys are exactly the names declared by the
  factories of that kind's fixed list, one key for each factory (nine receivers, three
  exporters, seven processors, no extension), and each name leads to the factory that
  declares it. Each of the four maps is built from its own list only, so a name may be a
  key of two of them.
\<close>

theorem GetFactories_catalog:
  assumes "snd (MakeFactoryMap receiver (receiver_Type T) receiver_factories) = None"
    and "snd (MakeFactoryMap exporter (exporter_Type T) exporter_factories) = None"
    and "snd (MakeFactoryMap processor (processor_Type T) processor_factories) = None"
    and "fst (GetFactories T ctx k) = (catalog, err)"
  shows "err = None \<and>
         dom (Receivers catalog) = receiver_Type T ` set receiver_factories \<and>
         card (dom (Receivers catalog)) = 9 \<and>
         dom (Exporters catalog) = exporter_Type T ` set exporter_factories \<and>
         card (dom (Exporters catalog)) = 3 \<and>
         dom (Processors catalog) = processor_Type T ` set processor_factories \<and>
         card (dom (Processors catalog)) = 7 \<and>
         dom (Extensions catalog) = {} \<and>
         (\<forall>f\<in>set receiver_factories. Receivers catalog (receiver_Type T f) = Some f) \<and>
         (\<forall>f\<in>set exporter_factories. Exporters catalog (exporter_Type T f) = Some f) \<and>
         (\<forall>f\<in>set processor_factories. Processors catalog (processor_Type T f) = Some f)"
proof -
  let ?r = "MakeFactoryMap receiver (receiver_Type T) receiver_factories"
  let ?e = "MakeFactoryMap exporter (exporter_Type T) exporter_factories"
  let ?p = "MakeFactoryMap processor (processor_Type T) processor_factories"
  from assms have res: "err = None" "Receivers catalog = fst ?r" "Exporters catalog = fst ?e"
    "Processors catalog = fst ?p" "Extensions catalog = Map.empty"
    by (auto simp: GetFactories_unfold Let_def)
  have len: "length receiver_factories = 9" "length exporter_factories = 3"
    "length processor_factories = 7"
    by (simp_all add: receiver_factories_def exporter_factories_def processor_factories_def)
  have r: "dom (fst ?r) = receiver_Type T ` set receiver_factories" "card (dom (fst ?r)) = 9"
    using MakeFactoryMap_dom [OF assms(1)] MakeFactoryMap_card [OF assms(1)] len(1)
    by simp_all
  have e: "dom (fst ?e) = exporter_Type T ` set exporter_factories" "card (dom (fst ?e)) = 3"
    using MakeFactoryMap_dom [OF assms(2)] MakeFactoryMap_card [OF assms(2)] len(2)
    by simp_all
  have p: "dom (fst ?p) = processor_Type T ` set processor_factories" "card (dom (fst ?p)) = 7"
    using MakeFactoryMap_dom [OF assms(3)] MakeFactoryMap_card [OF assms(3)] len(3)
    by simp_all
  have lr: "\<forall>f\<in>set receiver_factories. fst ?r (receiver_Type T f) = Some f"
    using assms(1) by (blast intro: MakeFactoryMap_lookup)
  have le: "\<forall>f\<in>set exporter_factories. fst ?e (exporter_Type T f) = Some f"
    using assms(2) by (blast intro: MakeFactoryMap_lookup)
  have lp: "\<forall>f\<in>set processor_factories. fst ?p (processor_Type T f) = Some f"
    using assms(3) by (blast intro: MakeFactoryMap_lookup)
  show ?thesis
    unfolding res using r e p lr le lp by simp
qed

theorem GetFactories_catalog_witness:
  "snd (fst (GetFactories upstream_Types Background KubeAgent_zero)) = None \<and>
   dom (Receivers (fst (fst (GetFactories upstream_Types Background KubeAgent_zero)))) =
     {''otlp'', ''fluentforward'', ''filelog'', ''docker_stats'', ''hostmetrics'',
      ''k8s_cluster'', ''k8s_events'', ''kubeletstats'', ''prometheus''} \<and>
   dom (Exporters (fst (fst (GetFactories upstream_Types Background KubeAgent_zero)))) =
     {''logging'', ''otlp'', ''otlphttp''} \<and>
   dom (Processors (fst (fst (GetFactories upstream_Types Background KubeAgent_zero)))) =
     {''batch'', ''memory_limiter'', ''filter'', ''attributes'', ''resource'',
      ''resourcedetection'', ''k8sattributes''} \<and>
   dom (Extensions (fst (fst (GetFactories upstream_Types Background KubeAgent_zero)))) = {} \<and>
   Receivers (fst (fst (GetFactories upstream_Types Background KubeAgent_zero))) ''otlp'' =
     Some otlpreceiver \<and>
   Exporters (fst (fst (GetFactories upstream_Types Background KubeAgent_zero))) ''otlp'' =
     Some otlpexporter"
proof -
  have r: "snd (MakeFactoryMap receiver (receiver_Type upstream_Types) receiver_factories) = None"
    by (simp add: MakeFactoryMap_err_None upstream_Types_def receiver_factories_def)
  have e: "snd (MakeFactoryMap exporter (exporter_Type upstream_Types) exporter_factories) = None"
    by (simp add: MakeFactoryMap_err_None upstream_Types_def exporter_factories_def)
  have p: "snd (MakeFactoryMap processor (processor_Type upstream_Types) processor_factories) = None"
    by (simp add: MakeFactoryMap_err_None upstream_Types_def processor_factories_def)
  have g: "fst (GetFactories upstream_Types Background KubeAgent_zero) =
      (fst (fst (GetFactories upstream_Types Background KubeAgent_zero)),
       snd (fst (GetFactories upstream_Types Background KubeAgent_zero)))"
    by simp
  have names: "receiver_Type upstream_Types = upstream_receiver_Type"
    "exporter_Type upstream_Types = upstream_exporter_Type"
    "processor_Type upstream_Types = upstream_processor_Type"
    by (simp_all add: upstream_Types_def)
  from GetFactories_catalog [OF r e p g] show ?thesis
    unfolding names receiver_factories_def exporter_factories_def processor_factories_def
    by simp
qed

text \<open>
  C8. When the registration of a kind fails, \<open>GetFactories\<close> returns the empty
  \<open>otelcol.Factories{}\<close>, never the maps of the kinds registered before, together with the
  error of the first kind that failed, as \<open>MakeFactoryMap\<close> returned it; that error names
  a kind and the name declared twice. (The registration
  of a kind fails exactly when two factories of its list declare the same name, see
  \<open>MakeFactoryMap_err_None\<close>; the extension list is empty and cannot fail.)
\<close>

theorem GetFactories_no_partial_catalog:
  assumes "errR = snd (MakeFactoryMap receiver (receiver_Type T) receiver_factories)"
    and "errE = snd (MakeFactoryMap exporter (exporter_Type T) exporter_factories)"
    and "errP = snd (MakeFactoryMap processor (processor_Type T) processor_factories)"
    and "errR \<noteq> None \<or> errE \<noteq> None \<or> errP \<noteq> None"
  shows "fst (GetFactories T ctx k) =
           (Factories_zero, if errR \<noteq> None then errR else if errE \<noteq> None then errE else errP) \<and>
         (\<exists>kind name. snd (fst (GetFactories T ctx k)) = Some (DuplicateFactory kind name))"
proof -
  let ?first = "if errR \<noteq> None then errR else if errE \<noteq> None then errE else errP"
  from assms have result: "fst (GetFactories T ctx k) = (Factories_zero, ?first)"
    by (auto simp: GetFactories_unfold Let_def)
  from assms(4) have "?first \<noteq> None" by (cases "errR = None"; cases "errE = None") auto
  then obtain e where e: "?first = Some e" by blast
  then consider "errR = Some e" | "errE = Some e" | "errP = Some e"
    by (auto split: if_splits)
  then have "\<exists>kind name. e = DuplicateFactory kind name"
  proof cases
    case 1
    with assms(1) MakeFactoryMap_error [of receiver "receiver_Type T" receiver_factories e]
    show ?thesis by auto
  next
    case 2
    with assms(2) MakeFactoryMap_error [of exporter "exporter_Type T" exporter_factories e]
    show ?thesis by auto
  next
    case 3
    with assms(3) MakeFactoryMap_error [of processor "processor_Type T" processor_factories e]
    show ?thesis by auto
  qed
  with result e show ?thesis by auto
qed

theorem GetFactories_no_partial_catalog_witness:
  "snd (MakeFactoryMap receiver (receiver_Type colliding_Types) receiver_factories) =
     Some (DuplicateFactory receiver ''otlp'') \<and>
   fst (GetFactories colliding_Types Background KubeAgent_zero) =
     (Factories_zero, Some (DuplicateFactory receiver ''otlp''))"
proof -
  have r: "snd (MakeFactoryMap receiver (receiver_Type colliding_Types) receiver_factories) =
      Some (DuplicateFactory receiver ''otlp'')"
    by (simp add: MakeFactoryMap_def colliding_Types_def colliding_receiver_Type_def
        receiver_factories_def)
  from GetFactories_no_partial_catalog [OF refl refl refl, of colliding_Types Background KubeAgent_zero]
    r
  show ?thesis by simp
qed

text \<open>
  C9. Neither \<open>GetUpdatedYAMLPath\<close> nor \<open>GetFactories\<close> changes the agent it is called
  on: the agent after the call is the agent before it, field by field.
\<close>

theorem methods_leave_agent_unchanged:
  "snd (GetUpdatedYAMLPath isSocketFn k) = k \<and> snd (GetFactories T ctx k) = k"
  by (simp add: GetUpdatedYAMLPath_def Let_def GetFactories_agent)

theorem methods_leave_agent_unchanged_witness:
  "snd (GetUpdatedYAMLPath docker_sock_live
      (agent_with_endpoint ''unix:///var/run/docker.sock'')) =
     agent_with_endpoint ''unix:///var/run/docker.sock'' \<and>
   snd (GetFactories upstream_Types Background
      (agent_with_endpoint ''unix:///var/run/docker.sock'')) =
     agent_with_endpoint ''unix:///var/run/docker.sock''"
  using methods_leave_agent_unchanged
    [of docker_sock_live "agent_with_endpoint ''unix:///var/run/docker.sock''"
        upstream_Types Background]
  by simp

text \<open>
  C10. \<open>GetFactories\<close> never consults its context: for one agent (and one set of
  factories), any two contexts give the same catalog and the same error, a cancelled
  context included.
\<close>

theorem GetFactories_ignores_context:
  "GetFactories T ctx k = GetFactories T ctx' k"
  by (simp add: GetFactories_def)

theorem GetFactories_ignores_context_witness:
  "GetFactories upstream_Types Cancelled KubeAgent_zero =
   GetFactories upstream_Types Background KubeAgent_zero \<and>
   GetFactories colliding_Types Cancelled KubeAgent_zero =
   GetFactories colliding_Types Background KubeAgent_zero"
  using GetFactories_ignores_context [of upstream_Types Cancelled KubeAgent_zero Background]
    GetFactories_ignores_context [of colliding_Types Cancelled KubeAgent_zero Background]
  by simp

end
